theory Spec2Isabelle
  imports Main
begin

section \<open>Errors\<close>

text \<open>
  Go's \<open>error\<close> values. \<open>Failure\<close> is an error reported by the operating system, the
  runtime or the fgprof library. \<open>Errorf\<close> and \<open>Wrapf\<close> are the values built by
  \<open>errors.Errorf\<close> and \<open>errors.Wrapf\<close> of github.com/pkg/errors, kept as format and
  arguments. \<open>Captured e d\<close> is an error \<open>e\<close> together with the error \<open>d\<close> of a
  closer that ran after it. A nil error is \<open>None\<close> of \<open>error option\<close>.
\<close>

datatype error =
    Failure string
  | Errorf string "string list"
  | Wrapf error string "string list"
  | Captured error error

section \<open>The environment: file system and runtime\<close>

text \<open>
  What a profile file holds is a list of what was written to it.
\<close>

datatype blob = HeapSnapshot | CPUSamples | FGProfSamples | TraceEvents

datatype fgformat = FormatFolded | FormatPprof

text \<open>
  The calls that profile.go makes into the standard library, the runtime and fgprof.
  File handles are numbers.
\<close>

datatype call =
    MkdirAll string nat
  | Create string
  | Close nat
  | WriteHeapProfile nat
  | StartCPUProfile nat
  | StopCPUProfile
  | FGProfStart nat fgformat
  | FGProfStop nat
  | TraceStart nat
  | TraceStop

text \<open>
  The process and its file system. \<open>MemProfileRate\<close> is \<open>runtime.MemProfileRate\<close>.
  \<open>handles\<close> maps each open file handle to its path. \<open>cpu_profile\<close> and \<open>tracer\<close> are
  the process-wide built-in CPU profiler and execution tracer, with the handle they write
  to while they run. \<open>faults\<close> decides which calls of the environment fail, and with
  which error. \<open>history\<close> lists the calls made so far, oldest first.
\<close>

record world =
  MemProfileRate :: int
  dirs :: "string set"
  files :: "string \<rightharpoonup> blob list"
  handles :: "nat \<rightharpoonup> string"
  next_fd :: nat
  cpu_profile :: "nat option"
  fgprof_running :: "nat set"
  tracer :: "nat option"
  faults :: "call \<Rightarrow> error option"
  history :: "call list"

type_synonym closer = "world \<Rightarrow> error option \<times> world"

definition record_call :: "call \<Rightarrow> world \<Rightarrow> world" where
  "record_call c w = w\<lparr>history := history w @ [c]\<rparr>"

text \<open>
  \<open>ancestors [] p\<close> lists the directories on the way to \<open>p\<close>, \<open>p\<close> last: the prefixes
  of \<open>p\<close> that end before a separator.
\<close>

fun ancestors :: "string \<Rightarrow> string \<Rightarrow> string list" where
  "ancestors pre [] = (if pre = [] then [] else [pre])"
| "ancestors pre (c # cs) =
     (if c = CHR ''/'' \<and> pre \<noteq> [] then pre # ancestors (pre @ [c]) cs
      else ancestors (pre @ [c]) cs)"

text \<open>
  \<open>filepath.Join\<close> on a directory and a file name. The cleaning of the path
  (\<open>filepath.Clean\<close>) is left out: the result is Go's when the directory is empty or
  is a cleaned path other than \<open>/\<close> and \<open>.\<close>; for a directory with a trailing or a
  doubled separator or with \<open>.\<close> or \<open>..\<close> segments, Go's result is the cleaned form of
  the string given here.
\<close>

definition filepath_Join :: "string \<Rightarrow> string \<Rightarrow> string" where
  "filepath_Join dir name = (if dir = [] then name else dir @ ''/'' @ name)"

text \<open>
  \<open>fmt.Sprintf\<close> with one string argument: the first \<open>%v\<close> is replaced by it.
\<close>

fun fmt_Sprintf :: "string \<Rightarrow> string \<Rightarrow> string" where
  "fmt_Sprintf [] a = []"
| "fmt_Sprintf [c] a = [c]"
| "fmt_Sprintf (c # d # rest) a =
     (if c = CHR ''%'' \<and> d = CHR ''v'' then a @ rest else c # fmt_Sprintf (d # rest) a)"

definition os_ModePerm :: nat where
  "os_ModePerm = 511"

text \<open>\<open>os.MkdirAll\<close>: creates the directory and its missing parents.\<close>

definition os_MkdirAll :: "string \<Rightarrow> nat \<Rightarrow> world \<Rightarrow> error option \<times> world" where
  "os_MkdirAll path perm w =
     (let w' = record_call (MkdirAll path perm) w in
      case faults w (MkdirAll path perm) of
        Some e \<Rightarrow> (Some e, w')
      | None \<Rightarrow> (None, w'\<lparr>dirs := insert path (dirs w' \<union> set (ancestors [] path))\<rparr>))"

text \<open>\<open>os.Create\<close>: creates or truncates the file and opens it.\<close>

definition os_Create :: "string \<Rightarrow> world \<Rightarrow> (error + nat) \<times> world" where
  "os_Create path w =
     (let w' = record_call (Create path) w in
      case faults w (Create path) of
        Some e \<Rightarrow> (Inl e, w')
      | None \<Rightarrow> (Inr (next_fd w'),
                 w'\<lparr>files := (files w')(path \<mapsto> []),
                    handles := (handles w')(next_fd w' \<mapsto> path),
                    next_fd := Suc (next_fd w')\<rparr>))"

text \<open>
  \<open>(*os.File).Close\<close>: the handle is released whether or not an error is reported; a
  handle that is not open reports an error.
\<close>

definition os_Close :: "nat \<Rightarrow> world \<Rightarrow> error option \<times> world" where
  "os_Close f w =
     (let w' = record_call (Close f) w in
      case handles w' f of
        None \<Rightarrow> (Some (Failure ''file already closed''), w')
      | Some p \<Rightarrow> (faults w (Close f), w'\<lparr>handles := (handles w')(f := None)\<rparr>))"

definition append_blob :: "nat \<Rightarrow> blob \<Rightarrow> world \<Rightarrow> world" where
  "append_blob f b w =
     (case handles w f of
        None \<Rightarrow> w
      | Some p \<Rightarrow> w\<lparr>files := (files w)(p \<mapsto> (case files w p of None \<Rightarrow> [b] | Some bs \<Rightarrow> bs @ [b]))\<rparr>)"

text \<open>\<open>pprof.WriteHeapProfile\<close>: writes the heap snapshot to the file.\<close>

definition pprof_WriteHeapProfile :: "nat \<Rightarrow> world \<Rightarrow> error option \<times> world" where
  "pprof_WriteHeapProfile f w =
     (let w' = record_call (WriteHeapProfile f) w in
      case handles w' f of
        None \<Rightarrow> (Some (Failure ''file already closed''), w')
      | Some p \<Rightarrow>
          (case faults w (WriteHeapProfile f) of
             Some e \<Rightarrow> (Some e, w')
           | None \<Rightarrow> (None, append_blob f HeapSnapshot w')))"

text \<open>
  \<open>pprof.StartCPUProfile\<close> and \<open>pprof.StopCPUProfile\<close>: one built-in CPU profile runs
  at a time; stopping writes the samples and reports nothing.
\<close>

definition pprof_StartCPUProfile :: "nat \<Rightarrow> world \<Rightarrow> error option \<times> world" where
  "pprof_StartCPUProfile f w =
     (let w' = record_call (StartCPUProfile f) w in
      case cpu_profile w' of
        Some g \<Rightarrow> (Some (Failure ''cpu profiling already in use''), w')
      | None \<Rightarrow>
          (case faults w (StartCPUProfile f) of
             Some e \<Rightarrow> (Some e, w')
           | None \<Rightarrow> (None, w'\<lparr>cpu_profile := Some f\<rparr>)))"

definition pprof_StopCPUProfile :: "world \<Rightarrow> world" where
  "pprof_StopCPUProfile w =
     (let w' = record_call StopCPUProfile w in
      case cpu_profile w' of
        None \<Rightarrow> w'
      | Some f \<Rightarrow> (append_blob f CPUSamples w')\<lparr>cpu_profile := None\<rparr>)"

text \<open>
  \<open>fgprof.Start\<close> returns the callback that stops the sampling and writes the profile;
  starting reports no error, the callback may.
\<close>

definition fgprof_stop :: "nat \<Rightarrow> fgformat \<Rightarrow> closer" where
  "fgprof_stop f fmt w =
     (let w' = (record_call (FGProfStop f) w)\<lparr>fgprof_running := fgprof_running w - {f}\<rparr> in
      case handles w' f of
        None \<Rightarrow> (Some (Failure ''file already closed''), w')
      | Some p \<Rightarrow>
          (case faults w (FGProfStop f) of
             Some e \<Rightarrow> (Some e, w')
           | None \<Rightarrow> (None, append_blob f FGProfSamples w')))"

definition fgprof_Start :: "nat \<Rightarrow> fgformat \<Rightarrow> world \<Rightarrow> closer \<times> world" where
  "fgprof_Start f fmt w =
     (fgprof_stop f fmt,
      (record_call (FGProfStart f fmt) w)\<lparr>fgprof_running := insert f (fgprof_running w)\<rparr>)"

text \<open>\<open>trace.Start\<close> and \<open>trace.Stop\<close>: one execution trace runs at a time.\<close>

definition trace_Start :: "nat \<Rightarrow> world \<Rightarrow> error option \<times> world" where
  "trace_Start f w =
     (let w' = record_call (TraceStart f) w in
      case tracer w' of
        Some g \<Rightarrow> (Some (Failure ''tracing is already enabled''), w')
      | None \<Rightarrow>
          (case faults w (TraceStart f) of
             Some e \<Rightarrow> (Some e, w')
           | None \<Rightarrow> (None, w'\<lparr>tracer := Some f\<rparr>)))"

definition trace_Stop :: "world \<Rightarrow> world" where
  "trace_Stop w =
     (let w' = record_call TraceStop w in
      case tracer w' of
        None \<Rightarrow> w'
      | Some f \<Rightarrow> (append_blob f TraceEvents w')\<lparr>tracer := None\<rparr>)"

text \<open>\<open>errors.Wrapf\<close> of github.com/pkg/errors: nil stays nil.\<close>

definition errors_Wrapf :: "error option \<Rightarrow> string \<Rightarrow> string list \<Rightarrow> error option" where
  "errors_Wrapf err format args = (case err of None \<Rightarrow> None | Some e \<Rightarrow> Some (Wrapf e format args))"

text \<open>
  Modelled from the spec: \<open>errcapture.Do\<close> of core/pkg/errcapture, which profile.go
  calls and which is not among the sources. The spec on the closer it runs (sections 4.2,
  4.3 and 7): the close is still attempted when the earlier step failed; a close error is
  wrapped with the given context; when the earlier step succeeded the close error is the
  one returned; when the earlier step failed that error is returned, it comes first, and
  the close error, if any, is also surfaced with it rather than dropped. The last case,
  both failing, is section 4.2's; section 4.3 words it as the earlier error taking
  priority, and nothing below is drawn from that case through section 4.3.
  The pointer argument \<open>&err\<close> is the value passed in and the value returned.
\<close>

definition errcapture_Do :: "error option \<Rightarrow> closer \<Rightarrow> string \<Rightarrow> world \<Rightarrow> error option \<times> world" where
  "errcapture_Do err doer format w =
     (case doer w of
        (None, w') \<Rightarrow> (err, w')
      | (Some d, w') \<Rightarrow>
          (case err of
             None \<Rightarrow> (Some (Wrapf d format []), w')
           | Some e \<Rightarrow> (Some (Captured e (Wrapf d format [])), w')))"

section \<open>profile.go\<close>

definition StopHeapRecording :: "world \<Rightarrow> world" where
  "StopHeapRecording w = w\<lparr>MemProfileRate := 0\<rparr>"

definition StartHeapRecording :: "bool \<Rightarrow> world \<Rightarrow> world" where
  "StartHeapRecording everyAlloc w =
     (if everyAlloc then w\<lparr>MemProfileRate := 1\<rparr>
      else w\<lparr>MemProfileRate := 512 * 1024\<rparr>)"

definition Heap :: "string \<Rightarrow> world \<Rightarrow> error option \<times> world" where
  "Heap dir w =
     (case os_MkdirAll dir os_ModePerm w of
        (Some e, w1) \<Rightarrow> (Some e, w1)
      | (None, w1) \<Rightarrow>
          (case os_Create (filepath_Join dir ''mem.pprof'') w1 of
             (Inl e, w2) \<Rightarrow> (Some e, w2)
           | (Inr f, w2) \<Rightarrow>
               (case pprof_WriteHeapProfile f w2 of
                  (err, w3) \<Rightarrow> errcapture_Do err (os_Close f) ''close'' w3)))"

type_synonym CPUType = string

definition CPUTypeBuiltIn :: CPUType where
  "CPUTypeBuiltIn = ''built-in''"

definition CPUTypeFGProf :: CPUType where
  "CPUTypeFGProf = ''fgprof''"

definition StartCPU :: "string \<Rightarrow> CPUType \<Rightarrow> world \<Rightarrow> (closer option \<times> error option) \<times> world" where
  "StartCPU dir typ w =
     (case (if typ = CPUTypeBuiltIn then Inr ''cpu.pprof''
            else if typ = CPUTypeFGProf then Inr ''cpu.fgprof.pprof''
            else Inl (Errorf ''unknown CPU profile type %v'' [typ])) of
        Inl e \<Rightarrow> ((None, Some e), w)
      | Inr fileName \<Rightarrow>
         (case os_MkdirAll dir os_ModePerm w of
          (Some e, w1) \<Rightarrow> ((None, Some e), w1)
        | (None, w1) \<Rightarrow>
            (case os_Create (filepath_Join dir fileName) w1 of
               (Inl e, w2) \<Rightarrow> ((None, Some e), w2)
             | (Inr f, w2) \<Rightarrow>
                 if typ = CPUTypeBuiltIn then
                   (case pprof_StartCPUProfile f w2 of
                      (Some e, w3) \<Rightarrow>
                        (case errcapture_Do (Some e) (os_Close f)
                                (fmt_Sprintf ''close %v'' (filepath_Join dir fileName)) w3 of
                           (err, w4) \<Rightarrow> ((None, err), w4))
                    | (None, w3) \<Rightarrow>
                        ((Some (\<lambda>v. case os_Close f (pprof_StopCPUProfile v) of
                                       (cerr, v') \<Rightarrow>
                                         (errors_Wrapf cerr ''close %v'' [filepath_Join dir fileName], v')),
                          None), w3))
                 else if typ = CPUTypeFGProf then
                   (case fgprof_Start f FormatPprof w2 of
                      (closeFGProfFn, w3) \<Rightarrow>
                        ((Some (\<lambda>v. case closeFGProfFn v of
                                       (ferr, v') \<Rightarrow>
                                         errcapture_Do ferr (os_Close f)
                                           (fmt_Sprintf ''close %v'' (filepath_Join dir fileName)) v'),
                          None), w3))
                 else ((None, None), w2))))"

definition StartTrace :: "string \<Rightarrow> world \<Rightarrow> (closer option \<times> error option) \<times> world" where
  "StartTrace dir w =
     (let fileName = ''trace.out'' in
      case os_MkdirAll dir os_ModePerm w of
        (Some e, w1) \<Rightarrow> ((None, Some e), w1)
      | (None, w1) \<Rightarrow>
          (case os_Create (filepath_Join dir fileName) w1 of
             (Inl e, w2) \<Rightarrow> ((None, Some e), w2)
           | (Inr f, w2) \<Rightarrow>
               (case trace_Start f w2 of
                  (Some e, w3) \<Rightarrow> ((None, Some e), w3)
                | (None, w3) \<Rightarrow>
                    ((Some (\<lambda>v. case os_Close f (trace_Stop v) of
                                   (cerr, v') \<Rightarrow>
                                     (errors_Wrapf cerr ''close %v'' [filepath_Join dir fileName], v')),
                      None), w3))))"

section \<open>Observations and example states\<close>

text \<open>
  \<open>carries err e\<close>: the error \<open>err\<close> is \<open>e\<close> or holds \<open>e\<close> as its cause or as one of
  the errors captured in it.
\<close>

fun carries :: "error \<Rightarrow> error \<Rightarrow> bool" where
  "carries (Captured a b) e = (Captured a b = e \<or> carries a e \<or> carries b e)"
| "carries (Wrapf d fm args) e = (Wrapf d fm args = e \<or> carries d e)"
| "carries x e = (x = e)"

text \<open>\<open>reports r e\<close>: the returned error \<open>r\<close> is not nil and carries \<open>e\<close>.\<close>

definition reports :: "error option \<Rightarrow> error \<Rightarrow> bool" where
  "reports r e = (case r of None \<Rightarrow> False | Some err \<Rightarrow> carries err e)"

text \<open>The paths of the \<open>os.Create\<close> calls in a list of calls.\<close>

definition created_paths :: "call list \<Rightarrow> string list" where
  "created_paths cs = concat (map (\<lambda>c. case c of Create p \<Rightarrow> [p] | _ \<Rightarrow> []) cs)"

text \<open>
  A process with nothing open and no profiler running; one with a trace and a built-in CPU
  profile already running; and one whose disk fails the writes to and the close of
  handle 3.
\<close>

definition idle_world :: world where
  "idle_world = \<lparr>MemProfileRate = 524288, dirs = {}, files = Map.empty, handles = Map.empty,
     next_fd = 3, cpu_profile = None, fgprof_running = {}, tracer = None,
     faults = (\<lambda>c. None), history = []\<rparr>"

definition busy_world :: world where
  "busy_world = idle_world\<lparr>
     dirs := {''old''},
     files := [''old/trace.out'' \<mapsto> [], ''old/cpu.pprof'' \<mapsto> []],
     handles := [1 \<mapsto> ''old/trace.out'', 2 \<mapsto> ''old/cpu.pprof''],
     cpu_profile := Some 2, tracer := Some 1\<rparr>"

definition faulty_world :: world where
  "faulty_world = idle_world\<lparr>
     faults := (\<lambda>c. if c = WriteHeapProfile 3 \<or> c = FGProfStop 3
                        then Some (Failure ''write: no space left on device'')
                      else if c = Close 3 then Some (Failure ''close: input/output error'')
                      else None)\<rparr>"

section \<open>Effects of the environment's calls\<close>

lemma os_MkdirAll_frame:
  assumes "os_MkdirAll d p w = (r, w1)"
  shows "history w1 = history w @ [MkdirAll d p]" and "files w1 = files w"
    and "handles w1 = handles w" and "next_fd w1 = next_fd w" and "faults w1 = faults w"
    and "cpu_profile w1 = cpu_profile w" and "tracer w1 = tracer w"
  using assms by (auto simp: os_MkdirAll_def record_call_def Let_def split: option.splits)

lemma os_MkdirAll_dirs:
  assumes "os_MkdirAll d p w = (None, w1)"
  shows "dirs w1 = insert d (dirs w \<union> set (ancestors [] d))"
  using assms by (auto simp: os_MkdirAll_def record_call_def Let_def split: option.splits)

lemma os_Create_frame:
  assumes "os_Create p w = (r, w1)"
  shows "history w1 = history w @ [Create p]" and "dirs w1 = dirs w" and "faults w1 = faults w"
    and "cpu_profile w1 = cpu_profile w" and "tracer w1 = tracer w"
  using assms by (auto simp: os_Create_def record_call_def Let_def split: option.splits)

lemma os_Create_failed:
  assumes "os_Create p w = (Inl e, w1)"
  shows "files w1 = files w" and "handles w1 = handles w"
  using assms by (auto simp: os_Create_def record_call_def Let_def split: option.splits)

lemma os_Create_opened:
  assumes "os_Create p w = (Inr f, w1)"
  shows "f = next_fd w" and "handles w1 = (handles w)(f \<mapsto> p)" and "files w1 = (files w)(p \<mapsto> [])"
  using assms by (auto simp: os_Create_def record_call_def Let_def split: option.splits)

lemma os_Close_frame:
  assumes "os_Close f w = (r, w1)"
  shows "history w1 = history w @ [Close f]" and "files w1 = files w" and "dirs w1 = dirs w"
    and "handles w1 f = None"
  using assms by (auto simp: os_Close_def record_call_def Let_def split: option.splits)

lemma pprof_WriteHeapProfile_frame:
  assumes "pprof_WriteHeapProfile f w = (r, w1)"
  shows "history w1 = history w @ [WriteHeapProfile f]" and "handles w1 = handles w"
    and "dirs w1 = dirs w" and "faults w1 = faults w"
  using assms
  by (auto simp: pprof_WriteHeapProfile_def append_blob_def record_call_def Let_def split: option.splits)

lemma pprof_WriteHeapProfile_file:
  assumes "pprof_WriteHeapProfile f w = (r, w1)" and "handles w f = Some p" and "files w p = Some bs"
  shows "files w1 p = Some (case r of None \<Rightarrow> bs @ [HeapSnapshot] | Some e \<Rightarrow> bs)"
  using assms
  by (auto simp: pprof_WriteHeapProfile_def append_blob_def record_call_def Let_def split: option.splits)

lemma pprof_StartCPUProfile_frame:
  assumes "pprof_StartCPUProfile f w = (r, w1)"
  shows "history w1 = history w @ [StartCPUProfile f]" and "handles w1 = handles w"
    and "files w1 = files w" and "dirs w1 = dirs w" and "faults w1 = faults w"
  using assms
  by (auto simp: pprof_StartCPUProfile_def record_call_def Let_def split: option.splits)

lemma trace_Start_frame:
  assumes "trace_Start f w = (r, w1)"
  shows "history w1 = history w @ [TraceStart f]" and "handles w1 = handles w"
    and "files w1 = files w" and "dirs w1 = dirs w" and "faults w1 = faults w"
  using assms
  by (auto simp: trace_Start_def record_call_def Let_def split: option.splits)

lemma fgprof_Start_frame:
  assumes "fgprof_Start f fmt w = (stop, w1)"
  shows "stop = fgprof_stop f fmt" and "history w1 = history w @ [FGProfStart f fmt]"
    and "handles w1 = handles w" and "files w1 = files w" and "dirs w1 = dirs w"
  using assms
  by (auto simp: fgprof_Start_def record_call_def Let_def)

lemma errcapture_Do_result:
  assumes "doer w = (derr, w1)"
  shows "errcapture_Do err doer fm w =
           ((case derr of
               None \<Rightarrow> err
             | Some d \<Rightarrow> (case err of None \<Rightarrow> Some (Wrapf d fm [])
                          | Some e \<Rightarrow> Some (Captured e (Wrapf d fm [])))), w1)"
  using assms by (simp add: errcapture_Do_def split: option.splits)

lemma carries_refl: "carries e e"
  by (cases e) simp_all

lemma CPUType_distinct: "CPUTypeFGProf \<noteq> CPUTypeBuiltIn"
  by (simp add: CPUTypeFGProf_def CPUTypeBuiltIn_def)

lemma reports_simps:
  "reports (Some e) e" "reports (Some (Captured a b)) a" 
  "reports (Some (Captured a (Wrapf c fm args))) c" "reports (Some (Wrapf c fm args)) c"
  by (simp_all add: reports_def carries_refl)

lemma errcapture_Do_keeps_error:
  "errcapture_Do (Some e) doer fm w = (r, w') \<Longrightarrow> r \<noteq> None"
  by (auto simp: errcapture_Do_def split: prod.splits option.splits)

text \<open>The definitions unfolded when a concrete state is evaluated.\<close>

lemmas env_defs = record_call_def os_MkdirAll_def os_Create_def os_Close_def append_blob_def
  pprof_WriteHeapProfile_def pprof_StartCPUProfile_def pprof_StopCPUProfile_def
  fgprof_stop_def fgprof_Start_def trace_Start_def trace_Stop_def errors_Wrapf_def
  errcapture_Do_def filepath_Join_def os_ModePerm_def Let_def

lemmas example_defs = idle_world_def busy_world_def faulty_world_def

section \<open>Heap recording\<close>

text \<open>
  C7: \<open>StartHeapRecording(true)\<close> sets the sampling rate to 1,
  \<open>StartHeapRecording(false)\<close> sets it to 524288, \<open>StopHeapRecording()\<close> sets it to 0,
  and starting then stopping leaves it at 0. The functions return the new state only:
  there is no error result.
\<close>

theorem heap_recording_rates:
  "MemProfileRate (StartHeapRecording True w) = 1
   \<and> MemProfileRate (StartHeapRecording False w) = 524288
   \<and> MemProfileRate (StopHeapRecording w) = 0
   \<and> MemProfileRate (StopHeapRecording (StartHeapRecording True w)) = 0"
  by (simp add: StartHeapRecording_def StopHeapRecording_def)

text \<open>
  C10: \<open>StartHeapRecording\<close> and \<open>StopHeapRecording\<close> change the sampling rate and
  nothing else: the state after differs from the state before in \<open>MemProfileRate\<close>
  at most, and no call to the file system or the runtime is made.
\<close>

theorem heap_recording_frame:
  "StartHeapRecording b w = w\<lparr>MemProfileRate := MemProfileRate (StartHeapRecording b w)\<rparr>
   \<and> StopHeapRecording w = w\<lparr>MemProfileRate := MemProfileRate (StopHeapRecording w)\<rparr>
   \<and> history (StartHeapRecording b w) = history w
   \<and> history (StopHeapRecording w) = history w
   \<and> files (StartHeapRecording b w) = files w \<and> files (StopHeapRecording w) = files w
   \<and> dirs (StartHeapRecording b w) = dirs w \<and> dirs (StopHeapRecording w) = dirs w
   \<and> handles (StartHeapRecording b w) = handles w \<and> handles (StopHeapRecording w) = handles w"
  by (simp add: StartHeapRecording_def StopHeapRecording_def)

section \<open>Heap snapshot\<close>

text \<open>
  C4: once the directory and the file are there, \<open>Heap\<close> has made \<open>dir\<close> and the
  directories on the way to it, created or truncated \<open>dir/mem.pprof\<close>, written the heap
  snapshot into it with the runtime's heap-profile writer, and closed the file. The close
  is attempted whether or not the write failed. A write error is returned, and a close
  error is reported too, wrapped with \<open>close\<close>: alone when the write succeeded, captured
  after the write error when both failed.
\<close>

theorem Heap_snapshot:
  assumes mk: "os_MkdirAll dir os_ModePerm w = (None, w1)"
    and cr: "os_Create (filepath_Join dir ''mem.pprof'') w1 = (Inr f, w2)"
    and wr: "pprof_WriteHeapProfile f w2 = (werr, w3)"
    and cl: "os_Close f w3 = (cerr, w4)"
  shows "snd (Heap dir w) = w4
     \<and> history w4 = history w @ [MkdirAll dir os_ModePerm,
          Create (filepath_Join dir ''mem.pprof''), WriteHeapProfile f, Close f]
     \<and> dir \<in> dirs w4 \<and> set (ancestors [] dir) \<subseteq> dirs w4
     \<and> files w4 (filepath_Join dir ''mem.pprof'')
          = Some (case werr of None \<Rightarrow> [HeapSnapshot] | Some e \<Rightarrow> [])
     \<and> handles w4 f = None
     \<and> fst (Heap dir w) =
         (case werr of
            None \<Rightarrow> (case cerr of None \<Rightarrow> None | Some c \<Rightarrow> Some (Wrapf c ''close'' []))
          | Some e \<Rightarrow> (case cerr of None \<Rightarrow> Some e
                       | Some c \<Rightarrow> Some (Captured e (Wrapf c ''close'' []))))
     \<and> (\<forall>e. werr = Some e \<longrightarrow> reports (fst (Heap dir w)) e)
     \<and> (\<forall>c. cerr = Some c \<longrightarrow> reports (fst (Heap dir w)) c)"
proof -
  have run: "Heap dir w = errcapture_Do werr (os_Close f) ''close'' w3"
    by (simp add: Heap_def mk cr wr)
  have res: "Heap dir w =
      ((case cerr of
          None \<Rightarrow> werr
        | Some d \<Rightarrow> (case werr of None \<Rightarrow> Some (Wrapf d ''close'' [])
                     | Some e \<Rightarrow> Some (Captured e (Wrapf d ''close'' [])))), w4)"
    unfolding run by (rule errcapture_Do_result [where doer = "os_Close f", OF cl])
  have hist: "history w4 = history w @ [MkdirAll dir os_ModePerm,
          Create (filepath_Join dir ''mem.pprof''), WriteHeapProfile f, Close f]"
    by (simp add: os_Close_frame(1)[OF cl] pprof_WriteHeapProfile_frame(1)[OF wr]
        os_Create_frame(1)[OF cr] os_MkdirAll_frame(1)[OF mk])
  have d: "dirs w4 = insert dir (dirs w \<union> set (ancestors [] dir))"
    by (simp add: os_Close_frame(3)[OF cl] pprof_WriteHeapProfile_frame(3)[OF wr]
        os_Create_frame(2)[OF cr] os_MkdirAll_dirs[OF mk])
  have d1: "dir \<in> dirs w4" and d2: "set (ancestors [] dir) \<subseteq> dirs w4"
    by (auto simp: d)
  have s1: "snd (Heap dir w) = w4"
    by (simp add: res)
  have h2: "handles w2 f = Some (filepath_Join dir ''mem.pprof'')"
    by (simp add: os_Create_opened(2)[OF cr])
  have f2: "files w2 (filepath_Join dir ''mem.pprof'') = Some []"
    by (simp add: os_Create_opened(3)[OF cr])
  have fl: "files w4 (filepath_Join dir ''mem.pprof'')
          = Some (case werr of None \<Rightarrow> [HeapSnapshot] | Some e \<Rightarrow> [])"
    using pprof_WriteHeapProfile_file [OF wr h2 f2]
    by (simp add: os_Close_frame(2)[OF cl] split: option.splits)
  have hc: "handles w4 f = None"
    by (rule os_Close_frame(4)[OF cl])
  have e1: "fst (Heap dir w) =
         (case werr of
            None \<Rightarrow> (case cerr of None \<Rightarrow> None | Some c \<Rightarrow> Some (Wrapf c ''close'' []))
          | Some e \<Rightarrow> (case cerr of None \<Rightarrow> Some e
                       | Some c \<Rightarrow> Some (Captured e (Wrapf c ''close'' []))))"
    by (simp add: res split: option.splits)
  have r1: "\<forall>e. werr = Some e \<longrightarrow> reports (fst (Heap dir w)) e"
    by (simp add: res reports_simps split: option.splits)
  have r2: "\<forall>c. cerr = Some c \<longrightarrow> reports (fst (Heap dir w)) c"
    by (simp add: res reports_simps split: option.splits)
  from s1 hist d1 d2 fl hc e1 r1 r2 show ?thesis by blast
qed

text \<open>
  The theorem at a disk that fails both the write and the close, and at a healthy one.
\<close>

theorem Heap_snapshot_witness:
  "fst (Heap ''prof/run1'' faulty_world)
     = Some (Captured (Failure ''write: no space left on device'')
               (Wrapf (Failure ''close: input/output error'') ''close'' []))
   \<and> history (snd (Heap ''prof/run1'' faulty_world))
     = [MkdirAll ''prof/run1'' 511, Create ''prof/run1/mem.pprof'', WriteHeapProfile 3, Close 3]
   \<and> handles (snd (Heap ''prof/run1'' faulty_world)) 3 = None
   \<and> ''prof'' \<in> dirs (snd (Heap ''prof/run1'' faulty_world))
   \<and> fst (Heap ''prof/run1'' idle_world) = None
   \<and> files (snd (Heap ''prof/run1'' idle_world)) ''prof/run1/mem.pprof'' = Some [HeapSnapshot]"
proof -
  let ?p = "filepath_Join ''prof/run1'' ''mem.pprof''"
  let ?w1 = "snd (os_MkdirAll ''prof/run1'' os_ModePerm faulty_world)"
  let ?w2 = "snd (os_Create ?p ?w1)"
  let ?w3 = "snd (pprof_WriteHeapProfile 3 ?w2)"
  let ?w4 = "snd (os_Close 3 ?w3)"
  have mk: "os_MkdirAll ''prof/run1'' os_ModePerm faulty_world = (None, ?w1)"
    by (simp add: env_defs example_defs)
  have cr: "os_Create ?p ?w1 = (Inr 3, ?w2)"
    by (simp add: env_defs example_defs)
  have wr: "pprof_WriteHeapProfile 3 ?w2 = (Some (Failure ''write: no space left on device''), ?w3)"
    by (simp add: env_defs example_defs)
  have cl: "os_Close 3 ?w3 = (Some (Failure ''close: input/output error''), ?w4)"
    by (simp add: env_defs example_defs)
  let ?v1 = "snd (os_MkdirAll ''prof/run1'' os_ModePerm idle_world)"
  let ?v2 = "snd (os_Create ?p ?v1)"
  let ?v3 = "snd (pprof_WriteHeapProfile 3 ?v2)"
  let ?v4 = "snd (os_Close 3 ?v3)"
  have mk': "os_MkdirAll ''prof/run1'' os_ModePerm idle_world = (None, ?v1)"
    by (simp add: env_defs example_defs)
  have cr': "os_Create ?p ?v1 = (Inr 3, ?v2)"
    by (simp add: env_defs example_defs)
  have wr': "pprof_WriteHeapProfile 3 ?v2 = (None, ?v3)"
    by (simp add: env_defs example_defs)
  have cl': "os_Close 3 ?v3 = (None, ?v4)"
    by (simp add: env_defs example_defs)
  from Heap_snapshot [OF mk cr wr cl] Heap_snapshot [OF mk' cr' wr' cl']
  show ?thesis
    by (simp add: env_defs example_defs)
qed

section \<open>Execution trace\<close>

text \<open>
  C1: when \<open>StartTrace\<close> has created the directory and \<open>trace.out\<close> and the tracer
  then fails to start, it returns that error with a nil stop function, and the file it
  opened stays open: the calls made are \<open>MkdirAll\<close>, \<open>Create\<close> and \<open>trace.Start\<close>, with
  no \<open>Close\<close>, and the handle is still in the table of open handles.
\<close>

theorem StartTrace_start_failure_leaks_file:
  assumes mk: "os_MkdirAll dir os_ModePerm w = (None, w1)"
    and cr: "os_Create (filepath_Join dir ''trace.out'') w1 = (Inr f, w2)"
    and st: "trace_Start f w2 = (Some e, w3)"
  shows "StartTrace dir w = ((None, Some e), w3)
     \<and> handles w3 f = Some (filepath_Join dir ''trace.out'')
     \<and> history w3 = history w @ [MkdirAll dir os_ModePerm,
                                   Create (filepath_Join dir ''trace.out''), TraceStart f]"
proof -
  have "StartTrace dir w = ((None, Some e), w3)"
    by (simp add: StartTrace_def mk cr st)
  moreover have "handles w3 f = Some (filepath_Join dir ''trace.out'')"
    by (simp add: trace_Start_frame(2)[OF st] os_Create_opened(2)[OF cr])
  moreover have "history w3 = history w @ [MkdirAll dir os_ModePerm,
      Create (filepath_Join dir ''trace.out''), TraceStart f]"
    by (simp add: trace_Start_frame(1)[OF st] os_Create_frame(1)[OF cr] os_MkdirAll_frame(1)[OF mk])
  ultimately show ?thesis by simp
qed

text \<open>
  The theorem at a process whose tracer is already running.
\<close>

theorem StartTrace_start_failure_leaks_file_witness:
  "fst (StartTrace ''prof'' busy_world) = (None, Some (Failure ''tracing is already enabled''))
   \<and> handles (snd (StartTrace ''prof'' busy_world)) 3 = Some ''prof/trace.out''
   \<and> history (snd (StartTrace ''prof'' busy_world))
       = [MkdirAll ''prof'' 511, Create ''prof/trace.out'', TraceStart 3]"
proof -
  let ?w1 = "snd (os_MkdirAll ''prof'' os_ModePerm busy_world)"
  let ?w2 = "snd (os_Create (filepath_Join ''prof'' ''trace.out'') ?w1)"
  let ?w3 = "snd (trace_Start 3 ?w2)"
  have mk: "os_MkdirAll ''prof'' os_ModePerm busy_world = (None, ?w1)"
    by (simp add: env_defs example_defs)
  have cr: "os_Create (filepath_Join ''prof'' ''trace.out'') ?w1 = (Inr 3, ?w2)"
    by (simp add: env_defs example_defs)
  have st: "trace_Start 3 ?w2 = (Some (Failure ''tracing is already enabled''), ?w3)"
    by (simp add: env_defs example_defs)
  from StartTrace_start_failure_leaks_file [OF mk cr st]
  show ?thesis
    by (simp add: env_defs example_defs)
qed

section \<open>CPU profiling\<close>

text \<open>
  C3: for a backend value that is neither \<open>built-in\<close> nor \<open>fgprof\<close>, \<open>StartCPU\<close>
  returns a nil stop function and an error built from the invalid value, and leaves the
  state as it was: no directory is made, no file created or truncated, no call recorded.
\<close>

theorem StartCPU_unknown_type:
  assumes "typ \<noteq> CPUTypeBuiltIn" and "typ \<noteq> CPUTypeFGProf"
  shows "StartCPU dir typ w = ((None, Some (Errorf ''unknown CPU profile type %v'' [typ])), w)"
  using assms by (simp add: StartCPU_def)

text \<open>
  The theorem at the backend value \<open>bogus\<close>.
\<close>

theorem StartCPU_unknown_type_witness:
  "''bogus'' \<noteq> CPUTypeBuiltIn \<and> ''bogus'' \<noteq> CPUTypeFGProf
   \<and> StartCPU ''prof'' ''bogus'' idle_world
       = ((None, Some (Errorf ''unknown CPU profile type %v'' [''bogus''])), idle_world)"
proof -
  have a: "''bogus'' \<noteq> CPUTypeBuiltIn" by (simp add: CPUTypeBuiltIn_def)
  have b: "''bogus'' \<noteq> CPUTypeFGProf" by (simp add: CPUTypeFGProf_def)
  from StartCPU_unknown_type [OF a b, of "''prof''" idle_world] a b
  show ?thesis by simp
qed

text \<open>
  C6: for a known backend, once the directory is there, \<open>StartCPU\<close> asks for exactly
  one file to be created or truncated, \<open>dir/cpu.pprof\<close> for the built-in backend and
  \<open>dir/cpu.fgprof.pprof\<close> for fgprof; when the creation succeeds that file is empty and
  every other file is as it was, and when it fails no file has changed.
\<close>

theorem StartCPU_creates_one_file:
  assumes known: "typ = CPUTypeBuiltIn \<or> typ = CPUTypeFGProf"
    and name: "name = (if typ = CPUTypeBuiltIn then ''cpu.pprof'' else ''cpu.fgprof.pprof'')"
    and mk: "os_MkdirAll dir os_ModePerm w = (None, w1)"
    and cr: "os_Create (filepath_Join dir name) w1 = (r, w2)"
  shows "created_paths (drop (length (history w)) (history (snd (StartCPU dir typ w))))
           = [filepath_Join dir name]
     \<and> files (snd (StartCPU dir typ w))
           = (case r of Inl e \<Rightarrow> files w | Inr f \<Rightarrow> (files w)(filepath_Join dir name \<mapsto> []))"
proof -
  let ?p = "filepath_Join dir name"
  let ?w' = "snd (StartCPU dir typ w)"
  have h2: "history w2 = history w @ [MkdirAll dir os_ModePerm, Create ?p]"
    by (simp add: os_Create_frame(1)[OF cr] os_MkdirAll_frame(1)[OF mk])
  have f2: "files w2 = (case r of Inl e \<Rightarrow> files w | Inr f \<Rightarrow> (files w)(?p \<mapsto> []))"
  proof (cases r)
    case (Inl e)
    with cr have "os_Create ?p w1 = (Inl e, w2)" by simp
    from os_Create_failed(1)[OF this] show ?thesis
      by (simp add: Inl os_MkdirAll_frame(2)[OF mk])
  next
    case (Inr f)
    with cr have "os_Create ?p w1 = (Inr f, w2)" by simp
    from os_Create_opened(3)[OF this] show ?thesis
      by (simp add: Inr os_MkdirAll_frame(2)[OF mk])
  qed
  have tail: "\<exists>cs. history ?w' = history w2 @ cs \<and> created_paths cs = [] \<and> files ?w' = files w2"
  proof (cases "typ = CPUTypeBuiltIn")
    case True
    with cr name have cr': "os_Create (filepath_Join dir ''cpu.pprof'') w1 = (r, w2)"
      by simp
    show ?thesis
    proof (cases r)
      case (Inl e)
      have "?w' = w2"
        using cr' by (simp add: StartCPU_def True mk Inl)
      then show ?thesis by (simp add: created_paths_def)
    next
      case (Inr f)
      obtain sr w3 where st: "pprof_StartCPUProfile f w2 = (sr, w3)"
        by fastforce
      show ?thesis
      proof (cases sr)
        case None
        have "?w' = w3"
          using cr' st by (simp add: StartCPU_def True mk Inr None)
        then show ?thesis
          by (simp add: pprof_StartCPUProfile_frame[OF st] created_paths_def)
      next
        case (Some e)
        obtain cerr w4 where cl: "os_Close f w3 = (cerr, w4)"
          by fastforce
        have "?w' = w4"
          using cr' st by (simp add: StartCPU_def True mk Inr Some errcapture_Do_def cl
              split: option.splits)
        then show ?thesis
          by (simp add: os_Close_frame[OF cl] pprof_StartCPUProfile_frame[OF st] created_paths_def)
      qed
    qed
  next
    case False
    with known have fg: "typ = CPUTypeFGProf" by simp
    with cr name have cr': "os_Create (filepath_Join dir ''cpu.fgprof.pprof'') w1 = (r, w2)"
      by (simp add: CPUType_distinct)
    show ?thesis
    proof (cases r)
      case (Inl e)
      have "?w' = w2"
        using cr' by (simp add: StartCPU_def fg CPUType_distinct mk Inl)
      then show ?thesis by (simp add: created_paths_def)
    next
      case (Inr f)
      obtain stop w3 where st: "fgprof_Start f FormatPprof w2 = (stop, w3)"
        by fastforce
      have "?w' = w3"
        using cr' st by (simp add: StartCPU_def fg CPUType_distinct mk Inr)
      then show ?thesis
        by (simp add: fgprof_Start_frame[OF st] created_paths_def)
    qed
  qed
  then obtain cs where cs: "history ?w' = history w2 @ cs" "created_paths cs = []"
    "files ?w' = files w2" by blast
  have a: "created_paths (drop (length (history w)) (history ?w')) = [?p]"
    using cs(2) by (simp add: cs(1) h2 created_paths_def)
  have b: "files ?w' = (case r of Inl e \<Rightarrow> files w | Inr f \<Rightarrow> (files w)(?p \<mapsto> []))"
    by (simp only: cs(3) f2)
  from a b show ?thesis by blast
qed

text \<open>
  The theorem at both backends, in a process with nothing running.
\<close>

theorem StartCPU_creates_one_file_witness:
  "created_paths (history (snd (StartCPU ''prof'' CPUTypeBuiltIn idle_world))) = [''prof/cpu.pprof'']
   \<and> files (snd (StartCPU ''prof'' CPUTypeBuiltIn idle_world)) = [''prof/cpu.pprof'' \<mapsto> []]
   \<and> created_paths (history (snd (StartCPU ''prof'' CPUTypeFGProf idle_world)))
        = [''prof/cpu.fgprof.pprof'']
   \<and> files (snd (StartCPU ''prof'' CPUTypeFGProf idle_world)) = [''prof/cpu.fgprof.pprof'' \<mapsto> []]"
proof -
  let ?w1 = "snd (os_MkdirAll ''prof'' os_ModePerm idle_world)"
  have mk: "os_MkdirAll ''prof'' os_ModePerm idle_world = (None, ?w1)"
    by (simp add: env_defs example_defs)
  have k1: "CPUTypeBuiltIn = CPUTypeBuiltIn \<or> CPUTypeBuiltIn = CPUTypeFGProf"
    by simp
  have n1: "''cpu.pprof'' = (if CPUTypeBuiltIn = CPUTypeBuiltIn then ''cpu.pprof'' else ''cpu.fgprof.pprof'')"
    by simp
  have c1: "os_Create (filepath_Join ''prof'' ''cpu.pprof'') ?w1
      = (Inr 3, snd (os_Create (filepath_Join ''prof'' ''cpu.pprof'') ?w1))"
    by (simp add: env_defs example_defs)
  have k2: "CPUTypeFGProf = CPUTypeBuiltIn \<or> CPUTypeFGProf = CPUTypeFGProf"
    by simp
  have n2: "''cpu.fgprof.pprof'' = (if CPUTypeFGProf = CPUTypeBuiltIn then ''cpu.pprof'' else ''cpu.fgprof.pprof'')"
    by (simp add: CPUType_distinct)
  have c2: "os_Create (filepath_Join ''prof'' ''cpu.fgprof.pprof'') ?w1
      = (Inr 3, snd (os_Create (filepath_Join ''prof'' ''cpu.fgprof.pprof'') ?w1))"
    by (simp add: env_defs example_defs)
  from StartCPU_creates_one_file [OF k1 n1 mk c1] StartCPU_creates_one_file [OF k2 n2 mk c2]
  show ?thesis
    by (simp add: env_defs example_defs)
qed

text \<open>
  C5: when \<open>StartCPU\<close> with the built-in backend has created the directory and
  \<open>cpu.pprof\<close> and \<open>pprof.StartCPUProfile\<close> then fails, the file that was opened is
  closed, no stop function is returned, and the error returned is the attachment error:
  as it is when the close succeeds, with the wrapped close error captured after it when
  the close fails too.
\<close>

theorem StartCPU_builtin_attach_failure:
  assumes mk: "os_MkdirAll dir os_ModePerm w = (None, w1)"
    and cr: "os_Create (filepath_Join dir ''cpu.pprof'') w1 = (Inr f, w2)"
    and st: "pprof_StartCPUProfile f w2 = (Some e, w3)"
    and cl: "os_Close f w3 = (cerr, w4)"
  shows "snd (StartCPU dir CPUTypeBuiltIn w) = w4
     \<and> fst (fst (StartCPU dir CPUTypeBuiltIn w)) = None
     \<and> history w4 = history w @ [MkdirAll dir os_ModePerm,
          Create (filepath_Join dir ''cpu.pprof''), StartCPUProfile f, Close f]
     \<and> handles w3 f = Some (filepath_Join dir ''cpu.pprof'')
     \<and> handles w4 f = None
     \<and> snd (fst (StartCPU dir CPUTypeBuiltIn w)) =
         (case cerr of None \<Rightarrow> Some e
          | Some c \<Rightarrow> Some (Captured e (Wrapf c (''close '' @ filepath_Join dir ''cpu.pprof'') [])))
     \<and> reports (snd (fst (StartCPU dir CPUTypeBuiltIn w))) e"
proof -
  let ?msg = "fmt_Sprintf ''close %v'' (filepath_Join dir ''cpu.pprof'')"
  have cap: "errcapture_Do (Some e) (os_Close f) ?msg w3 =
      ((case cerr of None \<Rightarrow> Some e
        | Some d \<Rightarrow> Some (Captured e (Wrapf d ?msg []))), w4)"
    using errcapture_Do_result [where doer = "os_Close f" and err = "Some e", OF cl]
    by (simp split: option.splits)
  have res: "StartCPU dir CPUTypeBuiltIn w =
      ((None, (case cerr of None \<Rightarrow> Some e
        | Some d \<Rightarrow> Some (Captured e (Wrapf d ?msg [])))), w4)"
    by (simp add: StartCPU_def mk cr st cap del: fmt_Sprintf.simps)
  have s1: "snd (StartCPU dir CPUTypeBuiltIn w) = w4"
    and s2: "fst (fst (StartCPU dir CPUTypeBuiltIn w)) = None"
    by (simp_all add: res)
  have hist: "history w4 = history w @ [MkdirAll dir os_ModePerm,
          Create (filepath_Join dir ''cpu.pprof''), StartCPUProfile f, Close f]"
    by (simp add: os_Close_frame(1)[OF cl] pprof_StartCPUProfile_frame(1)[OF st]
        os_Create_frame(1)[OF cr] os_MkdirAll_frame(1)[OF mk])
  have h3: "handles w3 f = Some (filepath_Join dir ''cpu.pprof'')"
    by (simp add: pprof_StartCPUProfile_frame(2)[OF st] os_Create_opened(2)[OF cr])
  have h4: "handles w4 f = None"
    by (rule os_Close_frame(4)[OF cl])
  have e1: "snd (fst (StartCPU dir CPUTypeBuiltIn w)) =
         (case cerr of None \<Rightarrow> Some e
          | Some c \<Rightarrow> Some (Captured e (Wrapf c (''close '' @ filepath_Join dir ''cpu.pprof'') [])))"
    by (simp add: res split: option.splits)
  have r1: "reports (snd (fst (StartCPU dir CPUTypeBuiltIn w))) e"
    by (simp add: res reports_simps split: option.splits)
  from s1 s2 hist h3 h4 e1 r1 show ?thesis by blast
qed

text \<open>
  The theorem at a process whose built-in CPU profile is already running.
\<close>

theorem StartCPU_builtin_attach_failure_witness:
  "fst (StartCPU ''prof'' CPUTypeBuiltIn busy_world)
     = (None, Some (Failure ''cpu profiling already in use''))
   \<and> history (snd (StartCPU ''prof'' CPUTypeBuiltIn busy_world))
     = [MkdirAll ''prof'' 511, Create ''prof/cpu.pprof'', StartCPUProfile 3, Close 3]
   \<and> handles (snd (StartCPU ''prof'' CPUTypeBuiltIn busy_world)) 3 = None"
proof -
  let ?p = "filepath_Join ''prof'' ''cpu.pprof''"
  let ?w1 = "snd (os_MkdirAll ''prof'' os_ModePerm busy_world)"
  let ?w2 = "snd (os_Create ?p ?w1)"
  let ?w3 = "snd (pprof_StartCPUProfile 3 ?w2)"
  let ?w4 = "snd (os_Close 3 ?w3)"
  have mk: "os_MkdirAll ''prof'' os_ModePerm busy_world = (None, ?w1)"
    by (simp add: env_defs example_defs)
  have cr: "os_Create ?p ?w1 = (Inr 3, ?w2)"
    by (simp add: env_defs example_defs)
  have st: "pprof_StartCPUProfile 3 ?w2 = (Some (Failure ''cpu profiling already in use''), ?w3)"
    by (simp add: env_defs example_defs)
  have cl: "os_Close 3 ?w3 = (None, ?w4)"
    by (simp add: env_defs example_defs)
  from StartCPU_builtin_attach_failure [OF mk cr st cl]
  show ?thesis
    by (simp add: env_defs example_defs prod_eq_iff)
qed

text \<open>
  C8: when the directory and the file have been created, \<open>StartCPU\<close> with the fgprof
  backend returns a nil error and a stop function that is not nil: \<open>fgprof.Start\<close> has
  no error result.
\<close>

theorem StartCPU_fgprof_cannot_fail:
  assumes mk: "os_MkdirAll dir os_ModePerm w = (None, w1)"
    and cr: "os_Create (filepath_Join dir ''cpu.fgprof.pprof'') w1 = (Inr f, w2)"
  shows "snd (fst (StartCPU dir CPUTypeFGProf w)) = None
     \<and> fst (fst (StartCPU dir CPUTypeFGProf w)) \<noteq> None"
  by (simp add: StartCPU_def CPUType_distinct mk cr fgprof_Start_def)

text \<open>
  The theorem at a process with nothing running.
\<close>

theorem StartCPU_fgprof_cannot_fail_witness:
  "snd (fst (StartCPU ''prof'' CPUTypeFGProf idle_world)) = None
   \<and> fst (fst (StartCPU ''prof'' CPUTypeFGProf idle_world)) \<noteq> None"
proof -
  let ?w1 = "snd (os_MkdirAll ''prof'' os_ModePerm idle_world)"
  let ?w2 = "snd (os_Create (filepath_Join ''prof'' ''cpu.fgprof.pprof'') ?w1)"
  have mk: "os_MkdirAll ''prof'' os_ModePerm idle_world = (None, ?w1)"
    by (simp add: env_defs example_defs)
  have cr: "os_Create (filepath_Join ''prof'' ''cpu.fgprof.pprof'') ?w1 = (Inr 3, ?w2)"
    by (simp add: env_defs example_defs)
  from StartCPU_fgprof_cannot_fail [OF mk cr]
  show ?thesis .
qed

section \<open>Stop function and error\<close>

text \<open>
  C9: \<open>StartCPU\<close> and \<open>StartTrace\<close> return a nil stop function exactly when they
  return an error that is not nil, for every directory, backend value and state.
\<close>

theorem stop_nil_iff_error:
  "(fst (fst (StartCPU dir typ w)) = None) = (snd (fst (StartCPU dir typ w)) \<noteq> None)
   \<and> (fst (fst (StartTrace dir w)) = None) = (snd (fst (StartTrace dir w)) \<noteq> None)"
proof -
  have cpu: "(fst (fst (StartCPU dir typ w)) = None) = (snd (fst (StartCPU dir typ w)) \<noteq> None)"
    by (auto simp: StartCPU_def fgprof_Start_def CPUType_distinct
        dest: errcapture_Do_keeps_error split: option.splits sum.splits prod.splits)
  have tr: "(fst (fst (StartTrace dir w)) = None) = (snd (fst (StartTrace dir w)) \<noteq> None)"
    by (auto simp: StartTrace_def Let_def split: option.splits sum.splits prod.splits)
  from cpu tr show ?thesis by blast
qed

end
